theory Spec2Isabelle
  imports Complex_Main "HOL-Library.Word"
begin

section \<open>The calls the program makes\<close>

text \<open>
  The program is a sequence of calls into GLFW, GLEW and OpenGL plus writes to the C++
  output streams. It is modelled by explicit state passing: every call is recorded, in
  order, in the \<open>trace\<close> of the state, and everything the libraries answer (return values,
  status flags, generated names, driver logs) is read from a \<open>driver\<close> record.
\<close>

type_synonym handle = "32 word"

datatype shader_kind = GL_VERTEX_SHADER | GL_FRAGMENT_SHADER

datatype buffer_target = GL_ARRAY_BUFFER

datatype buffer_usage = GL_STREAM_DRAW | GL_STATIC_DRAW | GL_DYNAMIC_DRAW

datatype status_name = GL_COMPILE_STATUS | GL_LINK_STATUS

datatype component_type = GL_FLOAT

datatype primitive = GL_TRIANGLES

datatype fault = WritePastEnd | ReadPastEnd

datatype gl_call =
    GlfwInit
  | GlfwCreateWindow nat nat string
  | GlfwTerminate
  | GlfwMakeContextCurrent
  | GlewInit
  | GlfwWindowShouldClose
  | GlfwSwapBuffers
  | GlfwPollEvents
  | GlGenBuffers nat
  | GlBindBuffer buffer_target handle
  | GlBufferData buffer_target nat "real list" buffer_usage
  | GlCreateShader shader_kind
  | GlShaderSource handle nat string
  | GlCompileShader handle
  | GlGetShaderiv handle status_name
  | GlGetShaderInfoLog handle nat
  | GlCreateProgram
  | GlAttachShader handle handle
  | GlLinkProgram handle
  | GlGetProgramiv handle status_name
  | GlGetProgramInfoLog handle nat
  | GlUseProgram handle
  | GlDeleteShader handle
  | GlVertexAttribPointer nat nat component_type bool nat nat
  | GlEnableVertexAttribArray nat
  | GlGenVertexArrays nat
  | GlBindVertexArray handle
  | GlDrawArrays primitive nat nat

text \<open>
  The state of the process: the calls made so far, the text written to \<open>std::cout\<close> and to
  \<open>std::cerr\<close>, the two globals of \<open>triangle.cpp\<close>, the number of times events have
  been polled (the window's close flag can only change there), and the reads the process
  has made outside an array.
\<close>

record gl_state =
  trace :: "gl_call list"
  stdout :: string
  stderr :: string
  shaderProgram :: handle
  VAO :: handle
  polls :: nat
  faults :: "fault list"

text \<open>
  What the platform answers. \<open>should_close d k\<close> is the value of
  \<open>glfwWindowShouldClose\<close> after \<open>k\<close> calls of \<open>glfwPollEvents\<close>.
  \<open>compile_status\<close> and \<open>link_status\<close> are the values found in \<open>success\<close> after the
  status query. \<open>create_shader\<close> and \<open>create_program\<close> are the names returned, 0 when
  no object could be created. \<open>stack_junk\<close> is what the stack holds from the address of
  an uninitialised local array on: the indeterminate content of the array, then the bytes
  behind it. \<open>sizeof_float\<close> is the implementation's \<open>sizeof(float)\<close>.
\<close>

record driver =
  glfwInit_result :: int
  window_created :: bool
  glewInit_result :: int
  should_close :: "nat \<Rightarrow> bool"
  gen_buffer :: handle
  create_shader :: "shader_kind \<Rightarrow> handle"
  compile_status :: "shader_kind \<Rightarrow> int"
  shader_log :: "shader_kind \<Rightarrow> string"
  create_program :: handle
  link_status :: int
  program_log :: string
  gen_vertex_array :: handle
  sizeof_float :: nat
  stack_junk :: "char list"

definition GLEW_OK :: int where
  "GLEW_OK = 0"

text \<open>Globals of static storage duration start at zero; nothing has been called or printed.\<close>

definition process_start :: gl_state where
  "process_start =
     \<lparr>trace = [], stdout = [], stderr = [], shaderProgram = 0, VAO = 0, polls = 0, faults = []\<rparr>"

definition calls :: "gl_call list \<Rightarrow> gl_state \<Rightarrow> gl_state" where
  "calls cs s = s\<lparr>trace := trace s @ cs\<rparr>"

definition cout :: "string \<Rightarrow> gl_state \<Rightarrow> gl_state" where
  "cout t s = s\<lparr>stdout := stdout s @ t\<rparr>"

section \<open>main.cpp\<close>

text \<open>The body of the main loop (lines 29 and 30): present, then poll.\<close>

definition frame :: "gl_state \<Rightarrow> gl_state" where
  "frame s = (calls [GlfwSwapBuffers, GlfwPollEvents] s)\<lparr>polls := Suc (polls s)\<rparr>"

text \<open>
  The main loop (lines 27 to 31). It may run forever, so it is a partial function: the
  value \<open>None\<close> is a loop that never ends.
\<close>

partial_function (option) main_loop :: "driver \<Rightarrow> gl_state \<Rightarrow> gl_state option" where
  "main_loop d s =
     (if should_close d (polls s) then Some (calls [GlfwWindowShouldClose] s)
      else main_loop d (frame (calls [GlfwWindowShouldClose] s)))"

declare main_loop.simps [code]

text \<open>\<open>main\<close>: the value returned (the exit code) and the final state, when it returns.\<close>

definition main :: "driver \<Rightarrow> (int \<times> gl_state) option" where
  "main d =
     (if glfwInit_result d = 0 then Some (- 1, calls [GlfwInit] process_start)
      else if \<not> window_created d
      then Some (- 1, calls [GlfwInit, GlfwCreateWindow 800 600 ''Empty Window'', GlfwTerminate]
                        process_start)
      else if glewInit_result d \<noteq> GLEW_OK
      then Some (- 1, calls [GlfwInit, GlfwCreateWindow 800 600 ''Empty Window'',
                             GlfwMakeContextCurrent, GlewInit, GlfwTerminate] process_start)
      else (case main_loop d (calls [GlfwInit, GlfwCreateWindow 800 600 ''Empty Window'',
                                     GlfwMakeContextCurrent, GlewInit] process_start) of
              None \<Rightarrow> None
            | Some s \<Rightarrow> Some (0, calls [GlfwTerminate] s)))"

section \<open>triangle.cpp\<close>

text \<open>
  The two shader sources, as the NUL-terminated strings that \<open>glShaderSource\<close> reads
  (count 1, no length array): the text up to the first NUL.
\<close>

definition vertexShaderSource :: string where
  "vertexShaderSource =
     ''#version 330 core\<newline>'' @
     ''layout (location = 0) in vec3 aPos;\<newline>'' @
     ''void main()\<newline>'' @
     ''{\<newline>'' @
     ''    gl_Position = vec4(aPos.x, aPos.y, aPos.z, 1.0);\<newline>'' @
     ''}''"

definition fragmentShaderSource :: string where
  "fragmentShaderSource =
     ''#version 330 core\<newline>'' @
     ''out vec4 FragColor;\<newline>'' @
     ''void main()\<newline>'' @
     ''{\<newline>'' @
     ''    FragColor = vec4(1.0f, 0.5f, 0.2f, 1.0f);\<newline>'' @
     ''}''"

subsection \<open>Character arrays and the info log\<close>

definition NUL :: char where
  "NUL = CHR 0x00"

text \<open>
  An uninitialised local \<open>char a[n]\<close>: \<open>n\<close> bytes of indeterminate content, here whatever
  \<open>junk\<close> the stack holds.
\<close>

definition char_array :: "nat \<Rightarrow> char list \<Rightarrow> char list" where
  "char_array n junk = take n (junk @ replicate n NUL)"

text \<open>
  Storing bytes from the start of an array. Storing more bytes than the array has is a
  write past its end.
\<close>

definition write_array :: "char list \<Rightarrow> char list \<Rightarrow> char list option" where
  "write_array a bs = (if length bs \<le> length a then Some (bs @ drop (length bs) a) else None)"

text \<open>
  What \<open>operator<<\<close> prints for a \<open>char*\<close>: the bytes before the first NUL. An array
  without a NUL is read past its end.
\<close>

definition c_string :: "char list \<Rightarrow> string option" where
  "c_string a = (if NUL \<in> set a then Some (takeWhile (\<lambda>c. c \<noteq> NUL) a) else None)"

text \<open>
  \<open>glGetShaderInfoLog\<close> and \<open>glGetProgramInfoLog\<close> belong to OpenGL, not to this
  program. By the OpenGL specification they store the log of the object \<open>name\<close> as a
  NUL-terminated string, and \<open>bufSize\<close> is the most bytes they store, the terminator
  included. A call that raises an OpenGL error has no other effect: for a name that is
  no shader or program object (the 0 that \<open>glCreateShader\<close> or \<open>glCreateProgram\<close> return
  on failure) nothing is stored, and the array stays as it was. With \<open>bufSize = 0\<close>
  nothing is stored either.
\<close>

definition info_log_bytes :: "handle \<Rightarrow> nat \<Rightarrow> string \<Rightarrow> char list" where
  "info_log_bytes name bufSize msg =
     (if name = 0 \<or> bufSize = 0 then [] else take (bufSize - 1) msg @ [NUL])"

text \<open>
  The body of each of the three failure branches (lines 103 to 106, 125 to 128, 154 to
  157): a local \<open>char infoLog[512]\<close>, never initialised; the log of the object \<open>name\<close>
  fetched into it with \<open>bufSize\<close>; then the header, the array as a C string and
  \<open>std::endl\<close> written to \<open>std::cout\<close>.

  A fetch of more bytes than the array has would overwrite the stack: the model stops
  there with \<open>WritePastEnd\<close>. An array left without a NUL is read past its end: the
  print runs on through the bytes behind the array to their first NUL, the process
  carries on, and the state records \<open>ReadPastEnd\<close>.
\<close>

definition print_info_log ::
  "gl_call \<Rightarrow> handle \<Rightarrow> nat \<Rightarrow> string \<Rightarrow> char list \<Rightarrow> string \<Rightarrow> gl_state \<Rightarrow>
     fault + gl_state" where
  "print_info_log fetch name bufSize header junk msg s =
     (case write_array (char_array 512 junk) (info_log_bytes name bufSize msg) of
        None \<Rightarrow> Inl WritePastEnd
      | Some infoLog \<Rightarrow>
          (case c_string infoLog of
             Some text \<Rightarrow> Inr (cout (header @ text @ ''\<newline>'') (calls [fetch] s))
           | None \<Rightarrow>
               Inr (cout (header @ infoLog @ takeWhile (\<lambda>c. c \<noteq> NUL) (drop 512 junk) @
                          ''\<newline>'')
                      ((calls [fetch] s)\<lparr>faults := faults s @ [ReadPastEnd]\<rparr>))))"

definition and_then :: "fault + 'a \<Rightarrow> ('a \<Rightarrow> fault + 'b) \<Rightarrow> fault + 'b" where
  "and_then r f = (case r of Inl e \<Rightarrow> Inl e | Inr x \<Rightarrow> f x)"

subsection \<open>renderTriangleSetup\<close>

text \<open>
  The vertex array of lines 43 to 47. Each of its values (one half, zero and their
  negatives) is a binary fraction that a \<open>float\<close> holds exactly, so the reals here are the
  values of the program.
\<close>

definition vertices :: "real list" where
  "vertices = [- 0.5, - 0.5, 0.0,
                 0.5, - 0.5, 0.0,
                 0.0,   0.5, 0.0]"

text \<open>Lines 62 to 78: generate, bind and fill the vertex buffer.\<close>

definition vertex_input :: "driver \<Rightarrow> gl_state \<Rightarrow> gl_state" where
  "vertex_input d s =
     (let VBO = gen_buffer d
      in calls [GlGenBuffers 1,
                GlBindBuffer GL_ARRAY_BUFFER VBO,
                GlBufferData GL_ARRAY_BUFFER (length vertices * sizeof_float d) vertices
                  GL_STATIC_DRAW] s)"

text \<open>Lines 84 to 107: create and compile the vertex shader, report a failure.\<close>

definition vertex_shader :: "driver \<Rightarrow> gl_state \<Rightarrow> fault + gl_state" where
  "vertex_shader d s =
     (let vertexShader = create_shader d GL_VERTEX_SHADER;
          s1 = calls [GlCreateShader GL_VERTEX_SHADER,
                      GlShaderSource vertexShader 1 vertexShaderSource,
                      GlCompileShader vertexShader,
                      GlGetShaderiv vertexShader GL_COMPILE_STATUS] s;
          success = compile_status d GL_VERTEX_SHADER
      in if success = 0
         then print_info_log (GlGetShaderInfoLog vertexShader 512) vertexShader 512
                ''ERROR::SHADER::VERTEX::COMPILATION_FAILED\<newline>''
                (stack_junk d) (shader_log d GL_VERTEX_SHADER) s1
         else Inr s1)"

text \<open>Lines 117 to 129: the same for the fragment shader.\<close>

definition fragment_shader :: "driver \<Rightarrow> gl_state \<Rightarrow> fault + gl_state" where
  "fragment_shader d s =
     (let fragmentShader = create_shader d GL_FRAGMENT_SHADER;
          s1 = calls [GlCreateShader GL_FRAGMENT_SHADER,
                      GlShaderSource fragmentShader 1 fragmentShaderSource,
                      GlCompileShader fragmentShader,
                      GlGetShaderiv fragmentShader GL_COMPILE_STATUS] s;
          success = compile_status d GL_FRAGMENT_SHADER
      in if success = 0
         then print_info_log (GlGetShaderInfoLog fragmentShader 512) fragmentShader 512
                ''ERROR::SHADER::FRAGMENT::COMPILATION_FAILED\<newline>''
                (stack_junk d) (shader_log d GL_FRAGMENT_SHADER) s1
         else Inr s1)"

text \<open>
  Lines 143 to 158: create the program (stored in the global), attach both shaders,
  link, report a failure.
\<close>

definition link_program :: "driver \<Rightarrow> gl_state \<Rightarrow> fault + gl_state" where
  "link_program d s =
     (let vertexShader = create_shader d GL_VERTEX_SHADER;
          fragmentShader = create_shader d GL_FRAGMENT_SHADER;
          s1 = (calls [GlCreateProgram] s)\<lparr>shaderProgram := create_program d\<rparr>;
          s2 = calls [GlAttachShader (shaderProgram s1) vertexShader,
                      GlAttachShader (shaderProgram s1) fragmentShader,
                      GlLinkProgram (shaderProgram s1),
                      GlGetProgramiv (shaderProgram s1) GL_LINK_STATUS] s1;
          success = link_status d
      in if success = 0
         then print_info_log (GlGetProgramInfoLog (shaderProgram s2) 512) (shaderProgram s2) 512
                ''ERROR::SHADER::PROGRAM::LINKING_FAILED\<newline>''
                (stack_junk d) (program_log d) s2
         else Inr s2)"

text \<open>Lines 163 to 168: activate the program, delete the two shader objects.\<close>

definition use_program :: "driver \<Rightarrow> gl_state \<Rightarrow> gl_state" where
  "use_program d s =
     (let vertexShader = create_shader d GL_VERTEX_SHADER;
          fragmentShader = create_shader d GL_FRAGMENT_SHADER
      in calls [GlUseProgram (shaderProgram s),
                GlDeleteShader vertexShader,
                GlDeleteShader fragmentShader] s)"

text \<open>
  Lines 199 to 217: describe attribute 0, generate and bind the vertex array (stored
  in the global), fill the buffer and describe attribute 0 again, unbind both.
\<close>

definition vertex_attributes :: "driver \<Rightarrow> gl_state \<Rightarrow> gl_state" where
  "vertex_attributes d s =
     (let VBO = gen_buffer d;
          s1 = calls [GlVertexAttribPointer 0 3 GL_FLOAT False (3 * sizeof_float d) 0,
                      GlEnableVertexAttribArray 0,
                      GlGenVertexArrays 1] s;
          s2 = s1\<lparr>VAO := gen_vertex_array d\<rparr>
      in calls [GlBindVertexArray (VAO s2),
                GlBindBuffer GL_ARRAY_BUFFER VBO,
                GlBufferData GL_ARRAY_BUFFER (length vertices * sizeof_float d) vertices
                  GL_STATIC_DRAW,
                GlVertexAttribPointer 0 3 GL_FLOAT False (3 * sizeof_float d) 0,
                GlEnableVertexAttribArray 0,
                GlBindBuffer GL_ARRAY_BUFFER 0,
                GlBindVertexArray 0] s2)"

definition renderTriangleSetup :: "driver \<Rightarrow> gl_state \<Rightarrow> fault + gl_state" where
  "renderTriangleSetup d s =
     and_then (vertex_shader d (vertex_input d s)) (\<lambda>s1.
     and_then (fragment_shader d s1) (\<lambda>s2.
     and_then (link_program d s2) (\<lambda>s3.
     Inr (vertex_attributes d (use_program d s3)))))"

subsection \<open>renderTriangle\<close>

definition renderTriangle :: "gl_state \<Rightarrow> gl_state" where
  "renderTriangle s =
     calls [GlUseProgram (shaderProgram s),
            GlBindVertexArray (VAO s),
            GlDrawArrays GL_TRIANGLES 0 3] s"

section \<open>Reading a trace\<close>

fun draws :: "gl_call \<Rightarrow> bool" where
  "draws (GlDrawArrays m first n) = True"
| "draws c = False"

fun creates :: "gl_call \<Rightarrow> bool" where
  "creates GlCreateProgram = True"
| "creates (GlGenVertexArrays n) = True"
| "creates c = False"

fun fetches_log :: "gl_call \<Rightarrow> bool" where
  "fetches_log (GlGetShaderInfoLog h n) = True"
| "fetches_log (GlGetProgramInfoLog h n) = True"
| "fetches_log c = False"

fun uploads :: "gl_call \<Rightarrow> bool" where
  "uploads (GlBufferData t n xs u) = True"
| "uploads c = False"

fun describes :: "gl_call \<Rightarrow> bool" where
  "describes (GlVertexAttribPointer i n t normalized stride offs) = True"
| "describes c = False"

fun deletes :: "gl_call \<Rightarrow> bool" where
  "deletes (GlDeleteShader h) = True"
| "deletes c = False"

text \<open>
  The vertices that attribute 0 reads from a buffer under the layout of line 209:
  three components each, one vertex directly after the other, from offset 0.
\<close>

fun vertices_of :: "real list \<Rightarrow> (real \<times> real \<times> real) list" where
  "vertices_of (x # y # z # rest) = (x, y, z) # vertices_of rest"
| "vertices_of rest = []"

section \<open>Sample platforms\<close>

text \<open>Everything succeeds, and the window is closed while the first frame is shown.\<close>

definition one_frame :: driver where
  "one_frame =
     \<lparr>glfwInit_result = 1, window_created = True, glewInit_result = 0,
      should_close = (\<lambda>k. 1 \<le> k), gen_buffer = 1,
      create_shader = (\<lambda>k. case k of GL_VERTEX_SHADER \<Rightarrow> 1 | GL_FRAGMENT_SHADER \<Rightarrow> 2),
      compile_status = (\<lambda>k. 1), shader_log = (\<lambda>k. []),
      create_program = 3, link_status = 1, program_log = [],
      gen_vertex_array = 1, sizeof_float = 4, stack_junk = ''junk''\<rparr>"

text \<open>
  The vertex shader is rejected with a log of 513 bytes, and linking fails; the fragment
  shader compiles.
\<close>

definition rejecting :: driver where
  "rejecting =
     one_frame\<lparr>compile_status := (\<lambda>k. case k of GL_VERTEX_SHADER \<Rightarrow> 0 | GL_FRAGMENT_SHADER \<Rightarrow> 1),
               shader_log := (\<lambda>k. replicate 513 CHR ''x''),
               link_status := 0,
               program_log := ''no vertex shader''\<rparr>"


section \<open>The diagnostic format of the specification\<close>


section \<open>The info log buffer\<close>

lemma length_char_array: "length (char_array n junk) = n"
  by (simp add: char_array_def)

lemma info_log_bytes_512:
  "info_log_bytes name 512 msg = (if name = 0 then [] else take 511 msg @ [NUL])"
  by (simp add: info_log_bytes_def)

lemma write_array_512:
  "write_array (char_array 512 junk) (take 511 msg @ [NUL]) =
     Some (take 511 msg @ NUL # drop (Suc (min (length msg) 511)) (char_array 512 junk))"
  by (simp add: write_array_def length_char_array)

lemma write_array_nothing: "write_array a [] = Some a"
  by (simp add: write_array_def)

lemma takeWhile_before_NUL:
  "takeWhile (\<lambda>c. c \<noteq> NUL) (xs @ NUL # ys) = takeWhile (\<lambda>c. c \<noteq> NUL) xs"
  by (induction xs) simp_all

lemma c_string_terminated:
  "c_string (xs @ NUL # ys) = Some (takeWhile (\<lambda>c. c \<noteq> NUL) xs)"
  by (simp add: c_string_def takeWhile_before_NUL)

text \<open>
  An array that the fetch left unwritten prints as the stack's bytes up to their first
  NUL, whether that NUL lies inside the array or behind it.
\<close>

lemma junk_terminated:
  "NUL \<in> set (take n (junk @ replicate m NUL)) \<Longrightarrow>
   takeWhile (\<lambda>c. c \<noteq> NUL) (take n (junk @ replicate m NUL)) = takeWhile (\<lambda>c. c \<noteq> NUL) junk"
proof (induction junk arbitrary: n)
  case Nil
  then show ?case by simp
next
  case (Cons x xs)
  then show ?case by (cases n) auto
qed

lemma junk_unterminated:
  "NUL \<notin> set (take n (junk @ replicate m NUL)) \<Longrightarrow>
   take n (junk @ replicate m NUL) @ takeWhile (\<lambda>c. c \<noteq> NUL) (drop n junk) =
     takeWhile (\<lambda>c. c \<noteq> NUL) junk"
proof (induction junk arbitrary: n)
  case Nil
  then show ?case by (auto simp: min_def split: if_splits)
next
  case (Cons x xs)
  then show ?case by (cases n) auto
qed

lemma print_unwritten:
  "print_info_log fetch 0 512 header junk msg s =
     Inr ((cout (header @ takeWhile (\<lambda>c. c \<noteq> NUL) junk @ ''\<newline>'') (calls [fetch] s))
            \<lparr>faults := faults s @
               (if NUL \<notin> set (char_array 512 junk) then [ReadPastEnd] else [])\<rparr>)"
proof (cases "NUL \<in> set (char_array 512 junk)")
  case True
  then show ?thesis
    using junk_terminated[of 512 junk 512]
    by (simp add: print_info_log_def info_log_bytes_512 write_array_nothing c_string_def
        char_array_def calls_def cout_def)
next
  case False
  then show ?thesis
    using junk_unterminated[of 512 junk 512]
    by (simp add: print_info_log_def info_log_bytes_512 write_array_nothing c_string_def
        char_array_def calls_def cout_def)
qed

text \<open>
  What a failure branch does with \<open>bufSize = 512\<close>: it never stops with a fault, it
  prints the log cut to 511 bytes when the name is an object, the unwritten stack bytes
  when it is not, and in that case reads past the array unless the array holds a NUL.
\<close>

lemma print_info_log_512:
  "print_info_log fetch name 512 header junk msg s =
     Inr ((cout (header @
                 (if name = 0 then takeWhile (\<lambda>c. c \<noteq> NUL) junk
                  else takeWhile (\<lambda>c. c \<noteq> NUL) (take 511 msg)) @
                 ''\<newline>'')
             (calls [fetch] s))
            \<lparr>faults := faults s @
               (if name = 0 \<and> NUL \<notin> set (char_array 512 junk) then [ReadPastEnd] else [])\<rparr>)"
proof (cases "name = 0")
  case True
  then show ?thesis by (simp add: print_unwritten)
next
  case False
  then show ?thesis
    by (simp add: print_info_log_def info_log_bytes_512 write_array_512 c_string_terminated
        calls_def cout_def)
qed

text \<open>
  \<open>renderTriangleSetup\<close> in one piece: it never stops with a fault, and this is
  everything it calls, prints and stores, for any answers of the platform.
\<close>

lemma renderTriangleSetup_eq:
  "renderTriangleSetup d s =
     Inr (s\<lparr>trace := trace s @
             [GlGenBuffers 1,
              GlBindBuffer GL_ARRAY_BUFFER (gen_buffer d),
              GlBufferData GL_ARRAY_BUFFER (length vertices * sizeof_float d) vertices
                GL_STATIC_DRAW,
              GlCreateShader GL_VERTEX_SHADER,
              GlShaderSource (create_shader d GL_VERTEX_SHADER) 1 vertexShaderSource,
              GlCompileShader (create_shader d GL_VERTEX_SHADER),
              GlGetShaderiv (create_shader d GL_VERTEX_SHADER) GL_COMPILE_STATUS] @
             (if compile_status d GL_VERTEX_SHADER = 0
              then [GlGetShaderInfoLog (create_shader d GL_VERTEX_SHADER) 512] else []) @
             [GlCreateShader GL_FRAGMENT_SHADER,
              GlShaderSource (create_shader d GL_FRAGMENT_SHADER) 1 fragmentShaderSource,
              GlCompileShader (create_shader d GL_FRAGMENT_SHADER),
              GlGetShaderiv (create_shader d GL_FRAGMENT_SHADER) GL_COMPILE_STATUS] @
             (if compile_status d GL_FRAGMENT_SHADER = 0
              then [GlGetShaderInfoLog (create_shader d GL_FRAGMENT_SHADER) 512] else []) @
             [GlCreateProgram,
              GlAttachShader (create_program d) (create_shader d GL_VERTEX_SHADER),
              GlAttachShader (create_program d) (create_shader d GL_FRAGMENT_SHADER),
              GlLinkProgram (create_program d),
              GlGetProgramiv (create_program d) GL_LINK_STATUS] @
             (if link_status d = 0
              then [GlGetProgramInfoLog (create_program d) 512] else []) @
             [GlUseProgram (create_program d),
              GlDeleteShader (create_shader d GL_VERTEX_SHADER),
              GlDeleteShader (create_shader d GL_FRAGMENT_SHADER)] @
             [GlVertexAttribPointer 0 3 GL_FLOAT False (3 * sizeof_float d) 0,
              GlEnableVertexAttribArray 0,
              GlGenVertexArrays 1,
              GlBindVertexArray (gen_vertex_array d),
              GlBindBuffer GL_ARRAY_BUFFER (gen_buffer d),
              GlBufferData GL_ARRAY_BUFFER (length vertices * sizeof_float d) vertices
                GL_STATIC_DRAW,
              GlVertexAttribPointer 0 3 GL_FLOAT False (3 * sizeof_float d) 0,
              GlEnableVertexAttribArray 0,
              GlBindBuffer GL_ARRAY_BUFFER 0,
              GlBindVertexArray 0],
            stdout := stdout s @
             (if compile_status d GL_VERTEX_SHADER = 0
              then ''ERROR::SHADER::VERTEX::COMPILATION_FAILED\<newline>'' @
                   (if create_shader d GL_VERTEX_SHADER = 0
                    then takeWhile (\<lambda>c. c \<noteq> NUL) (stack_junk d)
                    else takeWhile (\<lambda>c. c \<noteq> NUL) (take 511 (shader_log d GL_VERTEX_SHADER))) @
                   ''\<newline>''
              else []) @
             (if compile_status d GL_FRAGMENT_SHADER = 0
              then ''ERROR::SHADER::FRAGMENT::COMPILATION_FAILED\<newline>'' @
                   (if create_shader d GL_FRAGMENT_SHADER = 0
                    then takeWhile (\<lambda>c. c \<noteq> NUL) (stack_junk d)
                    else takeWhile (\<lambda>c. c \<noteq> NUL) (take 511 (shader_log d GL_FRAGMENT_SHADER))) @
                   ''\<newline>''
              else []) @
             (if link_status d = 0
              then ''ERROR::SHADER::PROGRAM::LINKING_FAILED\<newline>'' @
                   (if create_program d = 0
                    then takeWhile (\<lambda>c. c \<noteq> NUL) (stack_junk d)
                    else takeWhile (\<lambda>c. c \<noteq> NUL) (take 511 (program_log d))) @
                   ''\<newline>''
              else []),
            shaderProgram := create_program d,
            VAO := gen_vertex_array d,
            faults := faults s @
             (if compile_status d GL_VERTEX_SHADER = 0 \<and> create_shader d GL_VERTEX_SHADER = 0 \<and>
                 NUL \<notin> set (char_array 512 (stack_junk d))
              then [ReadPastEnd] else []) @
             (if compile_status d GL_FRAGMENT_SHADER = 0 \<and> create_shader d GL_FRAGMENT_SHADER = 0 \<and>
                 NUL \<notin> set (char_array 512 (stack_junk d))
              then [ReadPastEnd] else []) @
             (if link_status d = 0 \<and> create_program d = 0 \<and>
                 NUL \<notin> set (char_array 512 (stack_junk d))
              then [ReadPastEnd] else [])\<rparr>)"
  by (simp add: renderTriangleSetup_def and_then_def vertex_input_def vertex_shader_def
      fragment_shader_def link_program_def use_program_def vertex_attributes_def
      print_info_log_512 Let_def calls_def cout_def)

section \<open>The main loop\<close>

text \<open>The loop ends as soon as the close flag is seen.\<close>

lemma main_loop_stops:
  "should_close d (polls s + n) \<Longrightarrow> \<exists>s'. main_loop d s = Some s'"
proof (induction n arbitrary: s)
  case 0
  then show ?case by (simp add: main_loop.simps)
next
  case (Suc n)
  show ?case
  proof (cases "should_close d (polls s)")
    case True
    then show ?thesis by (simp add: main_loop.simps)
  next
    case False
    have "should_close d (polls (frame (calls [GlfwWindowShouldClose] s)) + n)"
      using Suc.prems by (simp add: frame_def calls_def)
    from Suc.IH [OF this] obtain s' where
      "main_loop d (frame (calls [GlfwWindowShouldClose] s)) = Some s'" by blast
    with False show ?thesis by (subst main_loop.simps) simp
  qed
qed

text \<open>
  A loop that ends has seen the close flag after some number \<open>n\<close> of frames, and has
  done nothing but check the flag, present and poll, \<open>n\<close> times over.
\<close>

lemma main_loop_result:
  assumes "main_loop d s = Some s'"
  shows "\<exists>n. should_close d (polls s + n) \<and>
             s' = s\<lparr>trace := trace s @
                      concat (replicate n [GlfwWindowShouldClose, GlfwSwapBuffers, GlfwPollEvents]) @
                      [GlfwWindowShouldClose],
                    polls := polls s + n\<rparr>"
  using assms
proof (induction rule: main_loop.raw_induct[rotated 1, consumes 1])
  case (1 loop d s s')
  let ?s1 = "frame (calls [GlfwWindowShouldClose] s)"
  show ?case
  proof (cases "should_close d (polls s)")
    case True
    with 1(2) have "s' = calls [GlfwWindowShouldClose] s" by simp
    with True show ?thesis
      by (intro exI[of _ 0]) (simp add: calls_def)
  next
    case False
    with 1(2) have "loop d ?s1 = Some s'" by simp
    from 1(1)[OF this] obtain n where
      n: "should_close d (polls ?s1 + n)"
         "s' = ?s1\<lparr>trace := trace ?s1 @
                      concat (replicate n [GlfwWindowShouldClose, GlfwSwapBuffers, GlfwPollEvents]) @
                      [GlfwWindowShouldClose],
                    polls := polls ?s1 + n\<rparr>" by blast
    show ?thesis
      using n by (intro exI[of _ "Suc n"]) (simp add: frame_def calls_def)
  qed
qed

lemma filter_iterations:
  "filter P xs = [] \<Longrightarrow> filter P (concat (replicate n xs)) = []"
  by (induction n) simp_all

text \<open>
  Claim C1, as the specification has it: every iteration of the frame loop activates the
  program, activates the geometry descriptor and issues one draw call of 3 vertices as
  triangles, then presents and polls. The loop of \<open>main\<close> does not: in the run below the
  window is closed during the first frame, and the whole process makes nine calls, none
  of them \<open>glUseProgram\<close>, \<open>glBindVertexArray\<close> or \<open>glDrawArrays\<close>.
\<close>

theorem frame_loop_draws_nothing:
  "main one_frame =
     Some (0, \<lparr>trace = [GlfwInit, GlfwCreateWindow 800 600 ''Empty Window'',
                        GlfwMakeContextCurrent, GlewInit,
                        GlfwWindowShouldClose, GlfwSwapBuffers, GlfwPollEvents,
                        GlfwWindowShouldClose, GlfwTerminate],
               stdout = [], stderr = [], shaderProgram = 0, VAO = 0, polls = 1,
               faults = []\<rparr>)"
  by (simp add: main_def one_frame_def GLEW_OK_def main_loop.simps frame_def calls_def
      process_start_def)

text \<open>
  Claim C1, amended: every iteration of the frame loop of \<open>main\<close> presents the frame and
  then polls events, and does nothing else; a loop that ends has made only such
  iterations, each after a check of the close flag. \<open>renderTriangle\<close>, which \<open>main\<close> does
  not call, activates the program, then the geometry descriptor, then issues exactly one
  draw call of 3 vertices as triangles.
\<close>

theorem frame_loop_presents_and_polls:
  "trace (frame s) = trace s @ [GlfwSwapBuffers, GlfwPollEvents] \<and>
   (main_loop d s = Some s' \<longrightarrow>
      (\<exists>n. trace s' = trace s @
              concat (replicate n [GlfwWindowShouldClose, GlfwSwapBuffers, GlfwPollEvents]) @
              [GlfwWindowShouldClose])) \<and>
   trace (renderTriangle s) =
     trace s @ [GlUseProgram (shaderProgram s), GlBindVertexArray (VAO s),
                GlDrawArrays GL_TRIANGLES 0 3]"
proof (intro conjI impI)
  show "trace (frame s) = trace s @ [GlfwSwapBuffers, GlfwPollEvents]"
    by (simp add: frame_def calls_def)
next
  assume "main_loop d s = Some s'"
  from main_loop_result[OF this] show
    "\<exists>n. trace s' = trace s @
            concat (replicate n [GlfwWindowShouldClose, GlfwSwapBuffers, GlfwPollEvents]) @
            [GlfwWindowShouldClose]"
    by auto
next
  show "trace (renderTriangle s) =
     trace s @ [GlUseProgram (shaderProgram s), GlBindVertexArray (VAO s),
                GlDrawArrays GL_TRIANGLES 0 3]"
    by (simp add: renderTriangle_def calls_def)
qed

theorem frame_loop_presents_and_polls_witness:
  "main_loop one_frame process_start =
     Some (process_start\<lparr>trace := [GlfwWindowShouldClose, GlfwSwapBuffers, GlfwPollEvents,
                                   GlfwWindowShouldClose],
                         polls := 1\<rparr>) \<and>
   (\<exists>n. [GlfwWindowShouldClose, GlfwSwapBuffers, GlfwPollEvents, GlfwWindowShouldClose] =
         concat (replicate n [GlfwWindowShouldClose, GlfwSwapBuffers, GlfwPollEvents]) @
         [GlfwWindowShouldClose])"
proof -
  have run: "main_loop one_frame process_start =
     Some (process_start\<lparr>trace := [GlfwWindowShouldClose, GlfwSwapBuffers, GlfwPollEvents,
                                   GlfwWindowShouldClose],
                         polls := 1\<rparr>)"
    by (simp add: one_frame_def main_loop.simps frame_def calls_def process_start_def)
  with frame_loop_presents_and_polls[of process_start one_frame
      "process_start\<lparr>trace := [GlfwWindowShouldClose, GlfwSwapBuffers, GlfwPollEvents,
                                   GlfwWindowShouldClose],
                         polls := 1\<rparr>"]
  show ?thesis by (simp add: process_start_def)
qed

section \<open>Runs of main\<close>

text \<open>
  Claim C2, as the specification has it: in every run that reaches the frame loop exactly
  one ShaderProgram and one GeometryDescriptor have been created by the one-time setup.
  \<open>main\<close> never calls the setup: the run below reaches the frame loop and ends with exit
  code 0, and no program and no vertex array was created in it.
\<close>

theorem main_creates_nothing:
  "map_option (filter creates \<circ> trace \<circ> snd) (main one_frame) = Some []"
  by (simp add: main_def one_frame_def GLEW_OK_def main_loop.simps frame_def calls_def
      process_start_def)

text \<open>What a run of \<open>main\<close> that returns has called: nothing that creates or draws.\<close>

lemma main_trace:
  assumes "main d = Some (code, s')"
  shows "filter creates (trace s') = [] \<and> filter draws (trace s') = [] \<and>
         shaderProgram s' = 0 \<and> VAO s' = 0"
proof (cases "glfwInit_result d = 0 \<or> \<not> window_created d \<or> glewInit_result d \<noteq> GLEW_OK")
  case True
  with assms show ?thesis
    by (auto simp: main_def calls_def process_start_def split: if_splits)
next
  case False
  let ?s0 = "calls [GlfwInit, GlfwCreateWindow 800 600 ''Empty Window'',
                    GlfwMakeContextCurrent, GlewInit] process_start"
  from False assms obtain s1 where
    loop: "main_loop d ?s0 = Some s1" and s': "s' = calls [GlfwTerminate] s1"
    by (auto simp: main_def split: option.splits)
  from main_loop_result[OF loop] obtain n where
    "s1 = ?s0\<lparr>trace := trace ?s0 @
                  concat (replicate n [GlfwWindowShouldClose, GlfwSwapBuffers, GlfwPollEvents]) @
                  [GlfwWindowShouldClose],
                polls := polls ?s0 + n\<rparr>" by blast
  with s' show ?thesis
    by (simp add: calls_def process_start_def filter_iterations)
qed

text \<open>
  Claim C2, amended: no run of \<open>main\<close> creates a ShaderProgram or a GeometryDescriptor,
  and none issues a draw call (both globals keep their initial value 0): a run that
  returns has done none of it, and no iteration of the frame loop does.
  \<open>renderTriangleSetup\<close>, which \<open>main\<close> does not call, when executed creates exactly one
  program and exactly one vertex array, stores them in the two globals, and issues no
  draw call.
\<close>

theorem setup_creates_one_program_one_descriptor:
  "(main d = Some (code, s1) \<longrightarrow>
      filter creates (trace s1) = [] \<and> filter draws (trace s1) = [] \<and>
      shaderProgram s1 = 0 \<and> VAO s1 = 0) \<and>
   (\<exists>s' new. renderTriangleSetup d s = Inr s' \<and> trace s' = trace s @ new \<and>
      filter creates new = [GlCreateProgram, GlGenVertexArrays 1] \<and>
      filter draws new = [] \<and>
      shaderProgram s' = create_program d \<and> VAO s' = gen_vertex_array d) \<and>
   filter creates (trace (frame s)) = filter creates (trace s) \<and>
   filter draws (trace (frame s)) = filter draws (trace s) \<and>
   shaderProgram (frame s) = shaderProgram s \<and> VAO (frame s) = VAO s"
proof (intro conjI)
  show "main d = Some (code, s1) \<longrightarrow>
      filter creates (trace s1) = [] \<and> filter draws (trace s1) = [] \<and>
      shaderProgram s1 = 0 \<and> VAO s1 = 0"
    using main_trace[of d code s1] by blast
next
  show "\<exists>s' new. renderTriangleSetup d s = Inr s' \<and> trace s' = trace s @ new \<and>
      filter creates new = [GlCreateProgram, GlGenVertexArrays 1] \<and>
      filter draws new = [] \<and>
      shaderProgram s' = create_program d \<and> VAO s' = gen_vertex_array d"
    by (simp add: renderTriangleSetup_eq)
qed (simp_all add: frame_def calls_def)

theorem setup_creates_one_program_one_descriptor_witness:
  "main one_frame =
     Some (0, \<lparr>trace = [GlfwInit, GlfwCreateWindow 800 600 ''Empty Window'',
                        GlfwMakeContextCurrent, GlewInit,
                        GlfwWindowShouldClose, GlfwSwapBuffers, GlfwPollEvents,
                        GlfwWindowShouldClose, GlfwTerminate],
               stdout = [], stderr = [], shaderProgram = 0, VAO = 0, polls = 1,
               faults = []\<rparr>) \<and>
   filter creates [GlfwInit, GlfwCreateWindow 800 600 ''Empty Window'',
                        GlfwMakeContextCurrent, GlewInit,
                        GlfwWindowShouldClose, GlfwSwapBuffers, GlfwPollEvents,
                        GlfwWindowShouldClose, GlfwTerminate] = [] \<and>
   filter draws [GlfwInit, GlfwCreateWindow 800 600 ''Empty Window'',
                        GlfwMakeContextCurrent, GlewInit,
                        GlfwWindowShouldClose, GlfwSwapBuffers, GlfwPollEvents,
                        GlfwWindowShouldClose, GlfwTerminate] = []"
proof -
  have run: "main one_frame =
     Some (0, \<lparr>trace = [GlfwInit, GlfwCreateWindow 800 600 ''Empty Window'',
                        GlfwMakeContextCurrent, GlewInit,
                        GlfwWindowShouldClose, GlfwSwapBuffers, GlfwPollEvents,
                        GlfwWindowShouldClose, GlfwTerminate],
               stdout = [], stderr = [], shaderProgram = 0, VAO = 0, polls = 1,
               faults = []\<rparr>)"
    by (simp add: main_def one_frame_def GLEW_OK_def main_loop.simps frame_def calls_def
      process_start_def)
  with setup_creates_one_program_one_descriptor[of one_frame 0 "\<lparr>trace = [GlfwInit, GlfwCreateWindow 800 600 ''Empty Window'',
                        GlfwMakeContextCurrent, GlewInit,
                        GlfwWindowShouldClose, GlfwSwapBuffers, GlfwPollEvents,
                        GlfwWindowShouldClose, GlfwTerminate],
               stdout = [], stderr = [], shaderProgram = 0, VAO = 0, polls = 1,
               faults = []\<rparr>"]
  show ?thesis by simp
qed

text \<open>
  Claim C3: the exit code is 0 exactly when the frame loop ends by the close signal, and
  non-zero (here \<open>-1\<close>) on each setup failure: \<open>glfwInit\<close> failing, no window or context
  created, or \<open>glewInit\<close> failing on the context made current. On a failure the process
  returns at once: every setup step has been tried once, and \<open>glfwTerminate\<close> is the last
  call wherever \<open>glfwInit\<close> had succeeded. A run whose close signal never comes has no
  exit code.
\<close>

theorem main_exit_code:
  "map_option fst (main d) =
     (if glfwInit_result d = 0 \<or> \<not> window_created d \<or> glewInit_result d \<noteq> GLEW_OK
      then Some (- 1)
      else if (\<exists>k. should_close d k) then Some 0 else None) \<and>
   (glfwInit_result d = 0 \<longrightarrow>
      map_option (trace \<circ> snd) (main d) = Some [GlfwInit]) \<and>
   (glfwInit_result d \<noteq> 0 \<and> \<not> window_created d \<longrightarrow>
      map_option (trace \<circ> snd) (main d) =
        Some [GlfwInit, GlfwCreateWindow 800 600 ''Empty Window'', GlfwTerminate]) \<and>
   (glfwInit_result d \<noteq> 0 \<and> window_created d \<and> glewInit_result d \<noteq> GLEW_OK \<longrightarrow>
      map_option (trace \<circ> snd) (main d) =
        Some [GlfwInit, GlfwCreateWindow 800 600 ''Empty Window'',
              GlfwMakeContextCurrent, GlewInit, GlfwTerminate])"
proof -
  let ?s0 = "calls [GlfwInit, GlfwCreateWindow 800 600 ''Empty Window'',
                    GlfwMakeContextCurrent, GlewInit] process_start"
  have closes: "\<exists>s'. main_loop d ?s0 = Some s'" if "should_close d k" for k
    using that main_loop_stops[of d ?s0 k] by (simp add: calls_def process_start_def)
  have never: "main_loop d ?s0 = None" if "\<not> (\<exists>k. should_close d k)"
  proof (cases "main_loop d ?s0")
    case (Some s')
    from main_loop_result[OF this] that show ?thesis by blast
  qed simp
  show ?thesis
    using closes never
    by (auto simp: main_def calls_def process_start_def split: option.splits)
qed

theorem main_exit_code_witness:
  "glfwInit_result (one_frame\<lparr>glfwInit_result := 0\<rparr>) = 0 \<and>
   map_option fst (main (one_frame\<lparr>glfwInit_result := 0\<rparr>)) = Some (- 1) \<and>
   map_option (trace \<circ> snd) (main (one_frame\<lparr>glfwInit_result := 0\<rparr>)) = Some [GlfwInit] \<and>
   glfwInit_result (one_frame\<lparr>window_created := False\<rparr>) \<noteq> 0 \<and>
   \<not> window_created (one_frame\<lparr>window_created := False\<rparr>) \<and>
   map_option fst (main (one_frame\<lparr>window_created := False\<rparr>)) = Some (- 1) \<and>
   map_option (trace \<circ> snd) (main (one_frame\<lparr>window_created := False\<rparr>)) =
     Some [GlfwInit, GlfwCreateWindow 800 600 ''Empty Window'', GlfwTerminate] \<and>
   glfwInit_result (one_frame\<lparr>glewInit_result := 1\<rparr>) \<noteq> 0 \<and>
   window_created (one_frame\<lparr>glewInit_result := 1\<rparr>) \<and>
   glewInit_result (one_frame\<lparr>glewInit_result := 1\<rparr>) \<noteq> GLEW_OK \<and>
   map_option fst (main (one_frame\<lparr>glewInit_result := 1\<rparr>)) = Some (- 1) \<and>
   map_option (trace \<circ> snd) (main (one_frame\<lparr>glewInit_result := 1\<rparr>)) =
     Some [GlfwInit, GlfwCreateWindow 800 600 ''Empty Window'',
           GlfwMakeContextCurrent, GlewInit, GlfwTerminate] \<and>
   map_option fst (main one_frame) = Some 0"
proof -
  have "\<exists>k. should_close one_frame k"
    by (rule exI[of _ 1]) (simp add: one_frame_def)
  then show ?thesis
    using main_exit_code[of "one_frame\<lparr>glfwInit_result := 0\<rparr>"]
      main_exit_code[of "one_frame\<lparr>window_created := False\<rparr>"]
      main_exit_code[of "one_frame\<lparr>glewInit_result := 1\<rparr>"]
      main_exit_code[of one_frame]
    by (simp add: one_frame_def GLEW_OK_def)
qed

section \<open>Failures of compilation and linking\<close>

text \<open>
  Claim C4, as the specification has it: on every compile or link failure the diagnostic
  block is emitted to the standard error stream, not to standard output. The code writes
  to \<open>std::cout\<close>: with the vertex shader rejected and linking failed, nothing is on the
  error stream and both blocks are on standard output.
\<close>

theorem diagnostics_not_on_stderr:
  "map_sum id stderr (renderTriangleSetup rejecting process_start) = Inr [] \<and>
   map_sum id stdout (renderTriangleSetup rejecting process_start) =
     Inr (''ERROR::SHADER::VERTEX::COMPILATION_FAILED\<newline>'' @ replicate 511 CHR ''x'' @
          ''\<newline>'' @
          ''ERROR::SHADER::PROGRAM::LINKING_FAILED\<newline>'' @ ''no vertex shader'' @
          ''\<newline>'')"
  by (simp add: renderTriangleSetup_eq rejecting_def one_frame_def process_start_def NUL_def)

text \<open>
  Claim C4, amended: for every shader compilation failure and every program link failure
  the diagnostic block is emitted to the standard output stream; the setup writes
  nothing to the standard error stream. The block is the header, the text found in the
  log array (the driver log cut to 511 bytes when the object exists, the unwritten stack
  bytes when its name is 0) and a newline.
\<close>

theorem diagnostics_on_stdout:
  "\<exists>s'. renderTriangleSetup d s = Inr s' \<and>
      stderr s' = stderr s \<and>
      stdout s' = stdout s @
        (if compile_status d GL_VERTEX_SHADER = 0
         then ''ERROR::SHADER::VERTEX::COMPILATION_FAILED\<newline>'' @
              (if create_shader d GL_VERTEX_SHADER = 0
               then takeWhile (\<lambda>c. c \<noteq> NUL) (stack_junk d)
               else takeWhile (\<lambda>c. c \<noteq> NUL) (take 511 (shader_log d GL_VERTEX_SHADER))) @
              ''\<newline>''
         else []) @
        (if compile_status d GL_FRAGMENT_SHADER = 0
         then ''ERROR::SHADER::FRAGMENT::COMPILATION_FAILED\<newline>'' @
              (if create_shader d GL_FRAGMENT_SHADER = 0
               then takeWhile (\<lambda>c. c \<noteq> NUL) (stack_junk d)
               else takeWhile (\<lambda>c. c \<noteq> NUL) (take 511 (shader_log d GL_FRAGMENT_SHADER))) @
              ''\<newline>''
         else []) @
        (if link_status d = 0
         then ''ERROR::SHADER::PROGRAM::LINKING_FAILED\<newline>'' @
              (if create_program d = 0
               then takeWhile (\<lambda>c. c \<noteq> NUL) (stack_junk d)
               else takeWhile (\<lambda>c. c \<noteq> NUL) (take 511 (program_log d))) @
              ''\<newline>''
         else [])"
  by (simp add: renderTriangleSetup_eq)

text \<open>
  Claim C5: a compile or link failure is reported and nothing else changes. Whatever the
  three status flags are, the setup runs to its end. Each failed step is reported: its
  log is fetched and a block with the header of that step is written to standard
  output, exactly at the failed steps. Apart from the fetching of the log the setup
  makes the same calls in the same order: the later compile, attach, link and use steps,
  with whatever handles \<open>glCreateShader\<close> and \<open>glCreateProgram\<close> returned, also 0.
  Nothing is undone.
\<close>

theorem failures_do_not_stop_setup:
  "\<exists>s' new. renderTriangleSetup d s = Inr s' \<and> trace s' = trace s @ new \<and>
      filter (\<lambda>c. \<not> fetches_log c) new =
        [GlGenBuffers 1,
         GlBindBuffer GL_ARRAY_BUFFER (gen_buffer d),
         GlBufferData GL_ARRAY_BUFFER (length vertices * sizeof_float d) vertices
           GL_STATIC_DRAW,
         GlCreateShader GL_VERTEX_SHADER,
         GlShaderSource (create_shader d GL_VERTEX_SHADER) 1 vertexShaderSource,
         GlCompileShader (create_shader d GL_VERTEX_SHADER),
         GlGetShaderiv (create_shader d GL_VERTEX_SHADER) GL_COMPILE_STATUS,
         GlCreateShader GL_FRAGMENT_SHADER,
         GlShaderSource (create_shader d GL_FRAGMENT_SHADER) 1 fragmentShaderSource,
         GlCompileShader (create_shader d GL_FRAGMENT_SHADER),
         GlGetShaderiv (create_shader d GL_FRAGMENT_SHADER) GL_COMPILE_STATUS,
         GlCreateProgram,
         GlAttachShader (create_program d) (create_shader d GL_VERTEX_SHADER),
         GlAttachShader (create_program d) (create_shader d GL_FRAGMENT_SHADER),
         GlLinkProgram (create_program d),
         GlGetProgramiv (create_program d) GL_LINK_STATUS,
         GlUseProgram (create_program d),
         GlDeleteShader (create_shader d GL_VERTEX_SHADER),
         GlDeleteShader (create_shader d GL_FRAGMENT_SHADER),
         GlVertexAttribPointer 0 3 GL_FLOAT False (3 * sizeof_float d) 0,
         GlEnableVertexAttribArray 0,
         GlGenVertexArrays 1,
         GlBindVertexArray (gen_vertex_array d),
         GlBindBuffer GL_ARRAY_BUFFER (gen_buffer d),
         GlBufferData GL_ARRAY_BUFFER (length vertices * sizeof_float d) vertices
           GL_STATIC_DRAW,
         GlVertexAttribPointer 0 3 GL_FLOAT False (3 * sizeof_float d) 0,
         GlEnableVertexAttribArray 0,
         GlBindBuffer GL_ARRAY_BUFFER 0,
         GlBindVertexArray 0] \<and>
      filter fetches_log new =
        (if compile_status d GL_VERTEX_SHADER = 0
         then [GlGetShaderInfoLog (create_shader d GL_VERTEX_SHADER) 512] else []) @
        (if compile_status d GL_FRAGMENT_SHADER = 0
         then [GlGetShaderInfoLog (create_shader d GL_FRAGMENT_SHADER) 512] else []) @
        (if link_status d = 0
         then [GlGetProgramInfoLog (create_program d) 512] else []) \<and>
      stdout s' = stdout s @
        (if compile_status d GL_VERTEX_SHADER = 0
         then ''ERROR::SHADER::VERTEX::COMPILATION_FAILED\<newline>'' @
              (if create_shader d GL_VERTEX_SHADER = 0
               then takeWhile (\<lambda>c. c \<noteq> NUL) (stack_junk d)
               else takeWhile (\<lambda>c. c \<noteq> NUL) (take 511 (shader_log d GL_VERTEX_SHADER))) @
              ''\<newline>''
         else []) @
        (if compile_status d GL_FRAGMENT_SHADER = 0
         then ''ERROR::SHADER::FRAGMENT::COMPILATION_FAILED\<newline>'' @
              (if create_shader d GL_FRAGMENT_SHADER = 0
               then takeWhile (\<lambda>c. c \<noteq> NUL) (stack_junk d)
               else takeWhile (\<lambda>c. c \<noteq> NUL) (take 511 (shader_log d GL_FRAGMENT_SHADER))) @
              ''\<newline>''
         else []) @
        (if link_status d = 0
         then ''ERROR::SHADER::PROGRAM::LINKING_FAILED\<newline>'' @
              (if create_program d = 0
               then takeWhile (\<lambda>c. c \<noteq> NUL) (stack_junk d)
               else takeWhile (\<lambda>c. c \<noteq> NUL) (take 511 (program_log d))) @
              ''\<newline>''
         else []) \<and>
      stderr s' = stderr s \<and>
      shaderProgram s' = create_program d \<and> VAO s' = gen_vertex_array d"
  by (simp add: renderTriangleSetup_eq)






section \<open>Geometry\<close>

text \<open>
  Claim C8: the geometry is the 9 floats of the three vertices \<open>(-0.5, -0.5, 0)\<close>,
  \<open>(0.5, -0.5, 0)\<close>, \<open>(0, 0.5, 0)\<close>, each component within \<open>[-1, 1]\<close>. The setup
  uploads it twice (lines 78 and 207), both times these same 9 values, and
  \<open>renderTriangle\<close> uploads nothing.
\<close>

theorem uploaded_geometry:
  "vertices_of vertices = [(- 0.5, - 0.5, 0), (0.5, - 0.5, 0), (0, 0.5, 0)] \<and>
   length vertices = 9 \<and>
   list_all (\<lambda>x. - 1 \<le> x \<and> x \<le> 1) vertices \<and>
   (\<exists>s' new. renderTriangleSetup d s = Inr s' \<and> trace s' = trace s @ new \<and>
      filter uploads new =
        [GlBufferData GL_ARRAY_BUFFER (9 * sizeof_float d) vertices GL_STATIC_DRAW,
         GlBufferData GL_ARRAY_BUFFER (9 * sizeof_float d) vertices GL_STATIC_DRAW]) \<and>
   (\<exists>new. trace (renderTriangle s) = trace s @ new \<and> filter uploads new = [])"
proof (intro conjI)
  show "vertices_of vertices = [(- 0.5, - 0.5, 0), (0.5, - 0.5, 0), (0, 0.5, 0)]"
    by (simp add: vertices_def)
  show len: "length vertices = 9"
    by (simp add: vertices_def)
  show "list_all (\<lambda>x. - 1 \<le> x \<and> x \<le> 1) vertices"
    by (simp add: vertices_def)
  show "\<exists>s' new. renderTriangleSetup d s = Inr s' \<and> trace s' = trace s @ new \<and>
      filter uploads new =
        [GlBufferData GL_ARRAY_BUFFER (9 * sizeof_float d) vertices GL_STATIC_DRAW,
         GlBufferData GL_ARRAY_BUFFER (9 * sizeof_float d) vertices GL_STATIC_DRAW]"
    by (simp add: renderTriangleSetup_eq len)
  show "\<exists>new. trace (renderTriangle s) = trace s @ new \<and> filter uploads new = []"
    by (simp add: renderTriangle_def calls_def)
qed

text \<open>
  Claim C9: both descriptions of the vertex attribute in the setup are slot 0, 3
  components of type float, not normalized, stride \<open>3 * sizeof(float)\<close>, offset 0; the
  second is recorded in the vertex array, bound just before with the filled
  buffer. \<open>renderTriangle\<close> after the setup binds that program and that vertex array and
  issues a single draw call: triangles, first vertex 0, 3 vertices.
\<close>

theorem attribute_binding_and_draw:
  "\<exists>s' new pre. renderTriangleSetup d s = Inr s' \<and> trace s' = trace s @ new \<and>
      filter describes new =
        [GlVertexAttribPointer 0 3 GL_FLOAT False (3 * sizeof_float d) 0,
         GlVertexAttribPointer 0 3 GL_FLOAT False (3 * sizeof_float d) 0] \<and>
      new = pre @
        [GlBindVertexArray (gen_vertex_array d),
         GlBindBuffer GL_ARRAY_BUFFER (gen_buffer d),
         GlBufferData GL_ARRAY_BUFFER (length vertices * sizeof_float d) vertices
           GL_STATIC_DRAW,
         GlVertexAttribPointer 0 3 GL_FLOAT False (3 * sizeof_float d) 0,
         GlEnableVertexAttribArray 0,
         GlBindBuffer GL_ARRAY_BUFFER 0,
         GlBindVertexArray 0] \<and>
      trace (renderTriangle s') =
        trace s' @ [GlUseProgram (create_program d), GlBindVertexArray (gen_vertex_array d),
                    GlDrawArrays GL_TRIANGLES 0 3] \<and>
      filter draws (trace (renderTriangle s')) =
        filter draws (trace s) @ [GlDrawArrays GL_TRIANGLES 0 3]"
proof -
  define pre where "pre =
             [GlGenBuffers 1,
              GlBindBuffer GL_ARRAY_BUFFER (gen_buffer d),
              GlBufferData GL_ARRAY_BUFFER (length vertices * sizeof_float d) vertices
                GL_STATIC_DRAW,
              GlCreateShader GL_VERTEX_SHADER,
              GlShaderSource (create_shader d GL_VERTEX_SHADER) 1 vertexShaderSource,
              GlCompileShader (create_shader d GL_VERTEX_SHADER),
              GlGetShaderiv (create_shader d GL_VERTEX_SHADER) GL_COMPILE_STATUS] @
             (if compile_status d GL_VERTEX_SHADER = 0
              then [GlGetShaderInfoLog (create_shader d GL_VERTEX_SHADER) 512] else []) @
             [GlCreateShader GL_FRAGMENT_SHADER,
              GlShaderSource (create_shader d GL_FRAGMENT_SHADER) 1 fragmentShaderSource,
              GlCompileShader (create_shader d GL_FRAGMENT_SHADER),
              GlGetShaderiv (create_shader d GL_FRAGMENT_SHADER) GL_COMPILE_STATUS] @
             (if compile_status d GL_FRAGMENT_SHADER = 0
              then [GlGetShaderInfoLog (create_shader d GL_FRAGMENT_SHADER) 512] else []) @
             [GlCreateProgram,
              GlAttachShader (create_program d) (create_shader d GL_VERTEX_SHADER),
              GlAttachShader (create_program d) (create_shader d GL_FRAGMENT_SHADER),
              GlLinkProgram (create_program d),
              GlGetProgramiv (create_program d) GL_LINK_STATUS] @
             (if link_status d = 0
              then [GlGetProgramInfoLog (create_program d) 512] else []) @
             [GlUseProgram (create_program d),
              GlDeleteShader (create_shader d GL_VERTEX_SHADER),
              GlDeleteShader (create_shader d GL_FRAGMENT_SHADER),
              GlVertexAttribPointer 0 3 GL_FLOAT False (3 * sizeof_float d) 0,
              GlEnableVertexAttribArray 0,
              GlGenVertexArrays 1]"
  let ?post = "[GlBindVertexArray (gen_vertex_array d),
         GlBindBuffer GL_ARRAY_BUFFER (gen_buffer d),
         GlBufferData GL_ARRAY_BUFFER (length vertices * sizeof_float d) vertices
           GL_STATIC_DRAW,
         GlVertexAttribPointer 0 3 GL_FLOAT False (3 * sizeof_float d) 0,
         GlEnableVertexAttribArray 0,
         GlBindBuffer GL_ARRAY_BUFFER 0,
         GlBindVertexArray 0]"
  obtain s' where run: "renderTriangleSetup d s = Inr s'"
    by (simp add: renderTriangleSetup_eq)
  then have tr: "trace s' = trace s @ pre @ ?post"
    and globals: "shaderProgram s' = create_program d" "VAO s' = gen_vertex_array d"
    by (auto simp: renderTriangleSetup_eq pre_def)
  have "filter describes (pre @ ?post) =
        [GlVertexAttribPointer 0 3 GL_FLOAT False (3 * sizeof_float d) 0,
         GlVertexAttribPointer 0 3 GL_FLOAT False (3 * sizeof_float d) 0]"
    by (simp add: pre_def)
  moreover have "filter draws (pre @ ?post) = []"
    by (simp add: pre_def)
  ultimately show ?thesis
    using run tr globals
    by (intro exI[of _ s'] exI[of _ "pre @ ?post"] exI[of _ pre])
       (simp add: renderTriangle_def calls_def)
qed

section \<open>Cleanup of the shader objects\<close>

text \<open>
  Claim C10: in every execution of the setup, whatever the compile and link status, both
  shader objects are deleted, once each, directly after \<open>glUseProgram\<close>, as the last
  step of the shader part of the setup: nothing before deletes a shader, and only the
  description of the vertex attribute follows.
\<close>

theorem shaders_deleted_after_use:
  "\<exists>s' pre. renderTriangleSetup d s = Inr s' \<and>
      trace s' = trace s @ pre @
        [GlUseProgram (create_program d),
         GlDeleteShader (create_shader d GL_VERTEX_SHADER),
         GlDeleteShader (create_shader d GL_FRAGMENT_SHADER)] @
        [GlVertexAttribPointer 0 3 GL_FLOAT False (3 * sizeof_float d) 0,
         GlEnableVertexAttribArray 0,
         GlGenVertexArrays 1,
         GlBindVertexArray (gen_vertex_array d),
         GlBindBuffer GL_ARRAY_BUFFER (gen_buffer d),
         GlBufferData GL_ARRAY_BUFFER (length vertices * sizeof_float d) vertices
           GL_STATIC_DRAW,
         GlVertexAttribPointer 0 3 GL_FLOAT False (3 * sizeof_float d) 0,
         GlEnableVertexAttribArray 0,
         GlBindBuffer GL_ARRAY_BUFFER 0,
         GlBindVertexArray 0] \<and>
      filter deletes pre = [] \<and>
      filter deletes (drop (length (trace s)) (trace s')) =
        [GlDeleteShader (create_shader d GL_VERTEX_SHADER),
         GlDeleteShader (create_shader d GL_FRAGMENT_SHADER)]"
proof -
  define pre where "pre =
             [GlGenBuffers 1,
              GlBindBuffer GL_ARRAY_BUFFER (gen_buffer d),
              GlBufferData GL_ARRAY_BUFFER (length vertices * sizeof_float d) vertices
                GL_STATIC_DRAW,
              GlCreateShader GL_VERTEX_SHADER,
              GlShaderSource (create_shader d GL_VERTEX_SHADER) 1 vertexShaderSource,
              GlCompileShader (create_shader d GL_VERTEX_SHADER),
              GlGetShaderiv (create_shader d GL_VERTEX_SHADER) GL_COMPILE_STATUS] @
             (if compile_status d GL_VERTEX_SHADER = 0
              then [GlGetShaderInfoLog (create_shader d GL_VERTEX_SHADER) 512] else []) @
             [GlCreateShader GL_FRAGMENT_SHADER,
              GlShaderSource (create_shader d GL_FRAGMENT_SHADER) 1 fragmentShaderSource,
              GlCompileShader (create_shader d GL_FRAGMENT_SHADER),
              GlGetShaderiv (create_shader d GL_FRAGMENT_SHADER) GL_COMPILE_STATUS] @
             (if compile_status d GL_FRAGMENT_SHADER = 0
              then [GlGetShaderInfoLog (create_shader d GL_FRAGMENT_SHADER) 512] else []) @
             [GlCreateProgram,
              GlAttachShader (create_program d) (create_shader d GL_VERTEX_SHADER),
              GlAttachShader (create_program d) (create_shader d GL_FRAGMENT_SHADER),
              GlLinkProgram (create_program d),
              GlGetProgramiv (create_program d) GL_LINK_STATUS] @
             (if link_status d = 0
              then [GlGetProgramInfoLog (create_program d) 512] else [])"
  obtain s' where run: "renderTriangleSetup d s = Inr s'"
    by (simp add: renderTriangleSetup_eq)
  then have tr: "trace s' = trace s @ pre @
        [GlUseProgram (create_program d),
         GlDeleteShader (create_shader d GL_VERTEX_SHADER),
         GlDeleteShader (create_shader d GL_FRAGMENT_SHADER)] @
        [GlVertexAttribPointer 0 3 GL_FLOAT False (3 * sizeof_float d) 0,
         GlEnableVertexAttribArray 0,
         GlGenVertexArrays 1,
         GlBindVertexArray (gen_vertex_array d),
         GlBindBuffer GL_ARRAY_BUFFER (gen_buffer d),
         GlBufferData GL_ARRAY_BUFFER (length vertices * sizeof_float d) vertices
           GL_STATIC_DRAW,
         GlVertexAttribPointer 0 3 GL_FLOAT False (3 * sizeof_float d) 0,
         GlEnableVertexAttribArray 0,
         GlBindBuffer GL_ARRAY_BUFFER 0,
         GlBindVertexArray 0]"
    by (auto simp: renderTriangleSetup_eq pre_def)
  have none: "filter deletes pre = []"
    by (simp add: pre_def)
  show ?thesis
    using run tr none
    by (intro exI[of _ s'] exI[of _ pre]) simp
qed

end
